theory Spec2Isabelle
  imports Main "HOL-Library.Char_ord" "HOL-Library.List_Lexorder" "HOL-Library.Multiset"
begin

section \<open>The git wrapper of submit50 (\<^verbatim>\<open>src/submit50/git.py\<close>)\<close>

text \<open>
  The module runs the \<^verbatim>\<open>git\<close> executable through \<^verbatim>\<open>subprocess.check_output\<close> and
  turns some of its failures into \<^verbatim>\<open>RuntimeError\<close>s. Everything outside the module is a
  parameter of the model:
  \<^item> the executable is a \<open>tool\<close>: given the command lines run so far and the command line
    to run, it answers with an exit status 0 and its standard output, with a non-zero exit
    status, or it is not found on the search path;
  \<^item> the value of the environment variable \<^verbatim>\<open>SUBMIT50_GIT_HOST\<close> is a \<open>string option\<close>;
  \<^item> \<^verbatim>\<open>os.getcwd()\<close> and the name that \<^verbatim>\<open>tempfile.TemporaryDirectory()\<close> creates are strings
    given by the caller.
  Text is ASCII: the standard output of the tool is a \<open>string\<close> and \<^verbatim>\<open>bytes.decode()\<close> is
  the identity on it (output that is not ASCII is outside the model).
  \<^verbatim>\<open>logging.debug\<close> has no effect on any result and is left out.
\<close>

subsection \<open>Exceptions and the external tool\<close>

datatype exn = CalledProcessError | FileNotFoundError | RuntimeError string

datatype proc = Exit0 string | ExitNonZero | Missing

text \<open>The command lines run so far, oldest first: the only state outside the objects.\<close>

type_synonym world = "string list list"

type_synonym tool = "world \<Rightarrow> string list \<Rightarrow> proc"

text \<open>
  \<^verbatim>\<open>subprocess.check_output(argv)\<close>: the standard output on exit status 0,
  \<^verbatim>\<open>CalledProcessError\<close> on any other exit status, \<^verbatim>\<open>FileNotFoundError\<close> when the
  executable does not exist.
\<close>

definition check_output :: "tool \<Rightarrow> string list \<Rightarrow> world \<Rightarrow> (exn + string) \<times> world" where
  "check_output t argv w =
     (case t w argv of
        Exit0 out \<Rightarrow> (Inr out, w @ [argv])
      | ExitNonZero \<Rightarrow> (Inl CalledProcessError, w @ [argv])
      | Missing \<Rightarrow> (Inl FileNotFoundError, w @ [argv]))"

text \<open>\<^verbatim>\<open>def git(args): return subprocess.check_output(['git', *args])\<close>\<close>

definition git :: "tool \<Rightarrow> string list \<Rightarrow> world \<Rightarrow> (exn + string) \<times> world" where
  "git t args w = check_output t (''git'' # args) w"

text \<open>\<^verbatim>\<open>def clone(args): return git(['clone', *args])\<close>\<close>

definition clone :: "tool \<Rightarrow> string list \<Rightarrow> world \<Rightarrow> (exn + string) \<times> world" where
  "clone t args w = git t (''clone'' # args) w"

text \<open>\<^verbatim>\<open>def config(args): return git(['config', *args])\<close>\<close>

definition config :: "tool \<Rightarrow> string list \<Rightarrow> world \<Rightarrow> (exn + string) \<times> world" where
  "config t args w = git t (''config'' # args) w"

subsection \<open>Library functions of Python that the module calls\<close>

text \<open>
  \<^verbatim>\<open>os.path.join(a, b)\<close> of \<^verbatim>\<open>posixpath\<close>, for two components: a second component that
  starts with the separator replaces the first; otherwise the two are concatenated, with a
  separator between them unless the first is empty or already ends with one.
\<close>

definition startswith_sep :: "string \<Rightarrow> bool" where
  "startswith_sep b = (case b of [] \<Rightarrow> False | c # _ \<Rightarrow> c = CHR ''/'')"

definition endswith_sep :: "string \<Rightarrow> bool" where
  "endswith_sep a = (case rev a of [] \<Rightarrow> False | c # _ \<Rightarrow> c = CHR ''/'')"

definition path_join :: "string \<Rightarrow> string \<Rightarrow> string" where
  "path_join a b =
     (if startswith_sep b then b
      else if a = [] \<or> endswith_sep a then a @ b
      else a @ ''/'' @ b)"

text \<open>
  \<^verbatim>\<open>str.isspace\<close> on one ASCII character: tab, line feed, vertical tab, form feed,
  carriage return, the four separators 0x1C to 0x1F, and the space.
\<close>

definition isspace :: "char \<Rightarrow> bool" where
  "isspace c = (let n = (of_char c :: nat) in (9 \<le> n \<and> n \<le> 13) \<or> (28 \<le> n \<and> n \<le> 32))"

text \<open>
  \<^verbatim>\<open>str.split()\<close> with no argument: the maximal runs of characters that are not
  whitespace, in order. The first argument holds the run being read.
\<close>

fun split_from :: "string \<Rightarrow> string \<Rightarrow> string list" where
  "split_from cur [] = (if cur = [] then [] else [cur])"
| "split_from cur (c # cs) =
     (if isspace c then (if cur = [] then split_from [] cs else cur # split_from [] cs)
      else split_from (cur @ [c]) cs)"

definition split :: "string \<Rightarrow> string list" where
  "split s = split_from [] s"


text \<open>
  \<^verbatim>\<open>sorted\<close> on a list of strings: ascending in the lexicographic order on the characters'
  codes, a proper prefix before the longer string.
\<close>

definition sorted_py :: "string list \<Rightarrow> string list" where
  "sorted_py xs = sort xs"

subsection \<open>The clients\<close>

text \<open>
  \<^verbatim>\<open>
  class GitClient:
      def __init__(self, repo, git_host='git@github.com:'):
          self.git_host = os.getenv('SUBMIT50_GIT_HOST', git_host)
          self.repo = repo
          self.git_dir = None
  \<close>
\<close>

record GitClient =
  git_host :: string
  repo :: string
  git_dir :: "string option"

record StudentAssignmentGitClient = GitClient +
  username :: string
  configs :: "string list"

definition default_git_host :: string where
  "default_git_host = ''git@github.com:''"

text \<open>\<^verbatim>\<open>os.getenv(name, default)\<close>: the variable's value when it is set.\<close>

definition getenv :: "string option \<Rightarrow> string \<Rightarrow> string" where
  "getenv env dflt = (case env of None \<Rightarrow> dflt | Some v \<Rightarrow> v)"

definition GitClient_init :: "string option \<Rightarrow> string \<Rightarrow> string \<Rightarrow> GitClient" where
  "GitClient_init env repo' git_host' =
     \<lparr>git_host = getenv env git_host', repo = repo', git_dir = None\<rparr>"

text \<open>The local \<^verbatim>\<open>remote\<close> of both clone methods: \<^verbatim>\<open>os.path.join(self.git_host, self.repo)\<close>.\<close>

definition remote :: "'a GitClient_scheme \<Rightarrow> string" where
  "remote c = path_join (git_host c) (repo c)"

text \<open>
  \<^verbatim>\<open>AssignmentTemplateGitClient.clone\<close>, up to its \<^verbatim>\<open>yield\<close>; \<open>temp_dir\<close> is the directory that
  \<^verbatim>\<open>tempfile.TemporaryDirectory()\<close> made. Only \<^verbatim>\<open>CalledProcessError\<close> is caught.
\<close>

definition template_clone ::
  "tool \<Rightarrow> string \<Rightarrow> GitClient \<Rightarrow> world \<Rightarrow> (exn + string) \<times> world" where
  "template_clone t temp_dir c w =
     (case clone t [''--depth'', ''1'', ''--quiet'', remote c, temp_dir] w of
        (Inl CalledProcessError, w') \<Rightarrow>
          (Inl (RuntimeError (''Failed to clone \"'' @ remote c @ ''\".'')), w')
      | (Inl e, w') \<Rightarrow> (Inl e, w')
      | (Inr _, w') \<Rightarrow> (Inr temp_dir, w'))"

subsection \<open>Sequencing and \<^verbatim>\<open>try\<close> / \<^verbatim>\<open>except\<close>\<close>

text \<open>An exception ends the sequence; the command lines run so far are kept.\<close>

definition then_do ::
  "(exn + 'a) \<times> world \<Rightarrow> ('a \<Rightarrow> world \<Rightarrow> (exn + 'b) \<times> world) \<Rightarrow> (exn + 'b) \<times> world" where
  "then_do m f = (case m of (Inl e, w) \<Rightarrow> (Inl e, w) | (Inr x, w) \<Rightarrow> f x w)"

text \<open>
  \<^verbatim>\<open>except subprocess.CalledProcessError: raise RuntimeError(msg)\<close> around a block: any other
  exception passes through.
\<close>

definition except_cpe :: "string \<Rightarrow> (exn + 'a) \<times> world \<Rightarrow> (exn + 'a) \<times> world" where
  "except_cpe msg m =
     (case m of
        (Inl CalledProcessError, w) \<Rightarrow> (Inl (RuntimeError msg), w)
      | (Inl e, w) \<Rightarrow> (Inl e, w)
      | (Inr x, w) \<Rightarrow> (Inr x, w))"

subsection \<open>Probing the global configuration\<close>

text \<open>
  \<^verbatim>\<open>
  def not_configured(key):
      try:
          return config(['--get', key])
      except subprocess.CalledProcessError as exc:
          logging.debug(exc, exc_info=True)
          return True
      return False
  \<close>
  The function returns the output of the query (a \<^verbatim>\<open>bytes\<close> object) when the query
  succeeds, and \<^verbatim>\<open>True\<close> when it exits with a non-zero status. The last line is never
  reached. \<^verbatim>\<open>FileNotFoundError\<close> is not caught.
\<close>

datatype pyval = PyBytes string | PyBool bool

text \<open>The truth value an \<^verbatim>\<open>if\<close> gives to it: a \<^verbatim>\<open>bytes\<close> object is true unless empty.\<close>

fun truthy :: "pyval \<Rightarrow> bool" where
  "truthy (PyBytes s) = (s \<noteq> [])"
| "truthy (PyBool b) = b"

definition not_configured :: "tool \<Rightarrow> string \<Rightarrow> world \<Rightarrow> (exn + pyval) \<times> world" where
  "not_configured t key w =
     (case config t [''--get'', key] w of
        (Inr out, w') \<Rightarrow> (Inr (PyBytes out), w')
      | (Inl CalledProcessError, w') \<Rightarrow> (Inr (PyBool True), w')
      | (Inl e, w') \<Rightarrow> (Inl e, w'))"

definition user_name_not_configured :: "tool \<Rightarrow> world \<Rightarrow> (exn + pyval) \<times> world" where
  "user_name_not_configured t w = not_configured t ''user.name'' w"

definition user_email_not_configured :: "tool \<Rightarrow> world \<Rightarrow> (exn + pyval) \<times> world" where
  "user_email_not_configured t w = not_configured t ''user.email'' w"

definition credential_helper_not_configured :: "tool \<Rightarrow> world \<Rightarrow> (exn + pyval) \<times> world" where
  "credential_helper_not_configured t w = not_configured t ''credential.helper'' w"

subsection \<open>\<^verbatim>\<open>StudentAssignmentGitClient\<close>\<close>

text \<open>
  Methods whose Python name starts with an underscore carry the suffix \<open>_m\<close> here
  (\<^verbatim>\<open>_git\<close> is \<open>git_m\<close>, \<^verbatim>\<open>_default_configs\<close> is \<open>default_configs_m\<close>, and so on).
\<close>

text \<open>
  \<^verbatim>\<open>
  def _default_configs(self):
      configs = []
      if user_name_not_configured():
          configs.extend(['-c', f'user.name={self.username}'])
      if user_email_not_configured():
          configs.extend(['-c', f'user.email={self.username}@users.noreply.github.com'])
      if credential_helper_not_configured():
          configs.extend(['-c', 'credential.helper=cache'])
      return configs
  \<close>
\<close>

definition default_configs_m ::
  "tool \<Rightarrow> 'a StudentAssignmentGitClient_scheme \<Rightarrow> world \<Rightarrow> (exn + string list) \<times> world" where
  "default_configs_m t self w =
     then_do (user_name_not_configured t w) (\<lambda>n w1.
       let configs1 = (if truthy n then [''-c'', ''user.name='' @ username self] else []) in
       then_do (user_email_not_configured t w1) (\<lambda>m w2.
         let configs2 = configs1 @
           (if truthy m
            then [''-c'', ''user.email='' @ username self @ ''@users.noreply.github.com'']
            else []) in
         then_do (credential_helper_not_configured t w2) (\<lambda>h w3.
           let configs3 = configs2 @
             (if truthy h then [''-c'', ''credential.helper=cache''] else []) in
           (Inr configs3, w3))))"

text \<open>
  \<^verbatim>\<open>
  def __init__(self, username, *args, **kwargs):
      self.username = username
      super().__init__(*args, **kwargs)
      self.configs = self._default_configs()
  \<close>
  \<^verbatim>\<open>_default_configs\<close> runs before \<^verbatim>\<open>self.configs\<close> exists and does not read it; the record
  holds the empty list there until the assignment.
\<close>

definition StudentAssignmentGitClient_init ::
  "tool \<Rightarrow> string option \<Rightarrow> string \<Rightarrow> string \<Rightarrow> string \<Rightarrow> world \<Rightarrow>
   (exn + StudentAssignmentGitClient) \<times> world" where
  "StudentAssignmentGitClient_init t env username' repo' git_host' w =
     (let self = GitClient.extend (GitClient_init env repo' git_host')
                   (StudentAssignmentGitClient.fields username' [])
      in then_do (default_configs_m t self w) (\<lambda>cs w'. (Inr (self\<lparr>configs := cs\<rparr>), w')))"

text \<open>
  \<^verbatim>\<open>
  def _git(self, args):
      git_dir = ['--git-dir', self.git_dir] if self.git_dir else []
      return git([*git_dir, '--work-tree', os.getcwd(), *self.configs, *args])
  \<close>
\<close>

definition git_dir_args :: "string option \<Rightarrow> string list" where
  "git_dir_args d = (case d of None \<Rightarrow> [] | Some s \<Rightarrow> if s = [] then [] else [''--git-dir'', s])"

definition git_m ::
  "tool \<Rightarrow> string \<Rightarrow> 'a StudentAssignmentGitClient_scheme \<Rightarrow> string list \<Rightarrow> world \<Rightarrow>
   (exn + string) \<times> world" where
  "git_m t cwd self args w =
     git t (git_dir_args (git_dir self) @ [''--work-tree'', cwd] @ configs self @ args) w"

definition clone_m ::
  "tool \<Rightarrow> string \<Rightarrow> 'a StudentAssignmentGitClient_scheme \<Rightarrow> string list \<Rightarrow> world \<Rightarrow>
   (exn + string) \<times> world" where
  "clone_m t cwd self args w = git_m t cwd self (''clone'' # args) w"

definition add_all_m ::
  "tool \<Rightarrow> string \<Rightarrow> 'a StudentAssignmentGitClient_scheme \<Rightarrow> world \<Rightarrow> (exn + string) \<times> world" where
  "add_all_m t cwd self w = git_m t cwd self [''add'', ''--all''] w"

text \<open>\<^verbatim>\<open>return sorted(self._git(['ls-files']).decode().split())\<close>\<close>

definition ls_files_m ::
  "tool \<Rightarrow> string \<Rightarrow> 'a StudentAssignmentGitClient_scheme \<Rightarrow> world \<Rightarrow>
   (exn + string list) \<times> world" where
  "ls_files_m t cwd self w =
     then_do (git_m t cwd self [''ls-files''] w) (\<lambda>out w'. (Inr (sorted_py (split out)), w'))"




text \<open>
  \<^verbatim>\<open>clone_bare\<close>, up to its \<^verbatim>\<open>yield\<close>; \<open>git_dir'\<close> is the directory that
  \<^verbatim>\<open>tempfile.TemporaryDirectory()\<close> made. The result is what the \<^verbatim>\<open>with\<close> statement of the
  caller receives or the exception it sees, the object after the call, and the world.
  \<^verbatim>\<open>
  remote = os.path.join(self.git_host, self.repo)
  with tempfile.TemporaryDirectory() as git_dir:
      try:
          self._clone(['--bare', '--quiet', remote, git_dir])
      except subprocess.CalledProcessError as exc:
          logging.debug(exc, exc_info=True)
          raise RuntimeError(f'Failed to clone "{remote}".\nPlease make sure ...')
      self.git_dir = git_dir
      yield git_dir
  \<close>
\<close>

definition clone_bare_message :: "string \<Rightarrow> string" where
  "clone_bare_message r =
     ''Failed to clone \"'' @ r @ ''\".'' @ [CHR 0x0A] @
     ''Please make sure you accepted the assignment invite on the problem set page.''"

definition clone_bare ::
  "tool \<Rightarrow> string \<Rightarrow> string \<Rightarrow> StudentAssignmentGitClient \<Rightarrow> world \<Rightarrow>
   (exn + string) \<times> StudentAssignmentGitClient \<times> world" where
  "clone_bare t cwd git_dir' self w =
     (case except_cpe (clone_bare_message (remote self))
             (clone_m t cwd self [''--bare'', ''--quiet'', remote self, git_dir'] w) of
        (Inl e, w') \<Rightarrow> (Inl e, self, w')
      | (Inr _, w') \<Rightarrow> (Inr git_dir', self\<lparr>git_dir := Some git_dir'\<rparr>, w'))"

text \<open>
  \<^verbatim>\<open>
  def add(self):
      try:
          self._add_all()
          return self._ls_files()
      except subprocess.CalledProcessError as exc:
          logging.debug(exc, exc_info=True)
          raise RuntimeError('Failed to ready files for submission.')
  \<close>
\<close>

definition add ::
  "tool \<Rightarrow> string \<Rightarrow> 'a StudentAssignmentGitClient_scheme \<Rightarrow> world \<Rightarrow>
   (exn + string list) \<times> world" where
  "add t cwd self w =
     except_cpe ''Failed to ready files for submission.''
       (then_do (add_all_m t cwd self w) (\<lambda>_ w'. ls_files_m t cwd self w'))"



subsection \<open>Observations used in the statements\<close>

text \<open>The command line that \<^verbatim>\<open>_git\<close> hands to \<^verbatim>\<open>subprocess.check_output\<close>.\<close>

definition git_m_argv ::
  "string \<Rightarrow> 'a StudentAssignmentGitClient_scheme \<Rightarrow> string list \<Rightarrow> string list" where
  "git_m_argv cwd self args =
     ''git'' # git_dir_args (git_dir self) @ [''--work-tree'', cwd] @ configs self @ args"

text \<open>The command line of one query to the configuration store.\<close>

definition config_query :: "string \<Rightarrow> string list" where
  "config_query key = [''git'', ''config'', ''--get'', key]"

text \<open>
  The settings that a list of arguments passes to git with \<^verbatim>\<open>-c\<close>: the argument after
  each \<^verbatim>\<open>-c\<close>, as git reads them.
\<close>

fun overrides :: "string list \<Rightarrow> string list" where
  "overrides (a # b # rest) =
     (if a = ''-c'' then b # overrides rest else overrides (b # rest))"
| "overrides [a] = []"
| "overrides [] = []"

text \<open>What \<^verbatim>\<open>git ls-files\<close> prints for a list of tracked paths: one path on each line.\<close>

definition ls_files_output :: "string list \<Rightarrow> string" where
  "ls_files_output names = concat (map (\<lambda>n. n @ [CHR 0x0A]) names)"

text \<open>
  The answer of the tool to the last command line of a log, that is, to the invocation at
  which an operation that raised has stopped.
\<close>

definition last_answer :: "tool \<Rightarrow> world \<Rightarrow> proc option" where
  "last_answer t w = (if w = [] then None else Some (t (butlast w) (last w)))"

text \<open>
  Whether \<^verbatim>\<open>_default_configs\<close> adds the override of a key, by the answer to the query for
  it: the \<^verbatim>\<open>if\<close> sees \<^verbatim>\<open>True\<close> after a non-zero exit status and the printed bytes after
  exit status 0.
\<close>

fun override_added :: "proc \<Rightarrow> bool" where
  "override_added (Exit0 out) = (out \<noteq> [])"
| "override_added ExitNonZero = True"
| "override_added Missing = False"

subsection \<open>Concrete tools and clients\<close>

definition tool_fail :: tool where
  "tool_fail w argv = ExitNonZero"


definition tool_answers :: "string \<Rightarrow> tool" where
  "tool_answers out w argv = Exit0 out"

text \<open>
  A git whose global configuration store holds the given keys: a query for a key that is
  set prints its value and a line feed and exits with status 0, a query for any other key
  exits with status 1; every other command succeeds and prints nothing.
\<close>

definition config_store :: "(string \<times> string) list \<Rightarrow> tool" where
  "config_store kvs w argv =
     (if length argv = 4 \<and> take 3 argv = [''git'', ''config'', ''--get'']
      then (case map_of kvs (last argv) of
              Some v \<Rightarrow> Exit0 (v @ [CHR 0x0A])
            | None \<Rightarrow> ExitNonZero)
      else Exit0 [])"

text \<open>A git with the given tracked paths: \<^verbatim>\<open>ls-files\<close> prints them, all else prints nothing.\<close>

definition tool_tracked :: "string list \<Rightarrow> tool" where
  "tool_tracked names w argv =
     (if argv \<noteq> [] \<and> last argv = ''ls-files'' then Exit0 (ls_files_output names) else Exit0 [])"

definition cwd0 :: string where
  "cwd0 = ''/home/alice/pset1''"

text \<open>
  The client of identity \<^verbatim>\<open>alice\<close> for \<^verbatim>\<open>org/repo\<close> on the default host, as the constructor
  leaves it when none of the three keys is set.
\<close>

definition alice :: StudentAssignmentGitClient where
  "alice = \<lparr>git_host = ''git@github.com:'', repo = ''org/repo'', git_dir = None,
            username = ''alice'',
            configs = [''-c'', ''user.name=alice'',
                       ''-c'', ''user.email=alice@users.noreply.github.com'',
                       ''-c'', ''credential.helper=cache'']\<rparr>"



section \<open>Basic facts\<close>

text \<open>Each operation, as a case analysis on the answers of the tool.\<close>

lemma git_m_check_output:
  "git_m t cwd self args w = check_output t (git_m_argv cwd self args) w"
  by (simp add: git_m_def git_def git_m_argv_def)

lemma check_output_cases:
  "check_output t argv w =
     ((case t w argv of Exit0 out \<Rightarrow> Inr out | ExitNonZero \<Rightarrow> Inl CalledProcessError
       | Missing \<Rightarrow> Inl FileNotFoundError), w @ [argv])"
  by (simp add: check_output_def split: proc.splits)


lemma clone_bare_eq:
  "clone_bare t cwd d self w =
     (let argv = git_m_argv cwd self [''clone'', ''--bare'', ''--quiet'', remote self, d] in
      case t w argv of
        Exit0 out \<Rightarrow> (Inr d, self\<lparr>git_dir := Some d\<rparr>, w @ [argv])
      | ExitNonZero \<Rightarrow> (Inl (RuntimeError (clone_bare_message (remote self))), self, w @ [argv])
      | Missing \<Rightarrow> (Inl FileNotFoundError, self, w @ [argv]))"
  by (simp add: clone_bare_def clone_m_def git_m_check_output check_output_cases
      except_cpe_def Let_def split: proc.splits)


lemma add_eq:
  "add t cwd self w =
     (let a1 = git_m_argv cwd self [''add'', ''--all''];
          a2 = git_m_argv cwd self [''ls-files''] in
      case t w a1 of
        ExitNonZero \<Rightarrow> (Inl (RuntimeError ''Failed to ready files for submission.''), w @ [a1])
      | Missing \<Rightarrow> (Inl FileNotFoundError, w @ [a1])
      | Exit0 _ \<Rightarrow>
         (case t (w @ [a1]) a2 of
            ExitNonZero \<Rightarrow>
              (Inl (RuntimeError ''Failed to ready files for submission.''), w @ [a1, a2])
          | Missing \<Rightarrow> (Inl FileNotFoundError, w @ [a1, a2])
          | Exit0 out \<Rightarrow> (Inr (sorted_py (split out)), w @ [a1, a2])))"
  by (simp add: add_def add_all_m_def ls_files_m_def git_m_check_output check_output_cases
      except_cpe_def then_do_def Let_def split: proc.splits)



lemma not_configured_eq:
  "not_configured t key w =
     (case t w (config_query key) of
        Exit0 out \<Rightarrow> (Inr (PyBytes out), w @ [config_query key])
      | ExitNonZero \<Rightarrow> (Inr (PyBool True), w @ [config_query key])
      | Missing \<Rightarrow> (Inl FileNotFoundError, w @ [config_query key]))"
  by (simp add: not_configured_def config_def git_def check_output_cases config_query_def
      split: proc.splits)

lemma default_configs_m_eq:
  "default_configs_m t self w =
     (let q1 = config_query ''user.name''; q2 = config_query ''user.email'';
          q3 = config_query ''credential.helper'' in
      if t w q1 = Missing then (Inl FileNotFoundError, w @ [q1])
      else if t (w @ [q1]) q2 = Missing then (Inl FileNotFoundError, w @ [q1, q2])
      else if t (w @ [q1, q2]) q3 = Missing then (Inl FileNotFoundError, w @ [q1, q2, q3])
      else (Inr ((if override_added (t w q1) then [''-c'', ''user.name='' @ username self] else []) @
                 (if override_added (t (w @ [q1]) q2)
                  then [''-c'', ''user.email='' @ username self @ ''@users.noreply.github.com'']
                  else []) @
                 (if override_added (t (w @ [q1, q2]) q3)
                  then [''-c'', ''credential.helper=cache''] else [])),
            w @ [q1, q2, q3]))"
  by (simp add: default_configs_m_def user_name_not_configured_def
      user_email_not_configured_def credential_helper_not_configured_def not_configured_eq
      then_do_def Let_def split: proc.splits)

lemma init_eq:
  "StudentAssignmentGitClient_init t env u r h w =
     (case default_configs_m t
             \<lparr>git_host = getenv env h, repo = r, git_dir = None, username = u, configs = []\<rparr> w of
        (Inl e, w') \<Rightarrow> (Inl e, w')
      | (Inr cs, w') \<Rightarrow>
          (Inr \<lparr>git_host = getenv env h, repo = r, git_dir = None, username = u, configs = cs\<rparr>,
           w'))"
  by (simp add: StudentAssignmentGitClient_init_def GitClient_init_def then_do_def
      GitClient.defs StudentAssignmentGitClient.defs Let_def split: prod.splits sum.splits)






lemma split_from_no_space:
  "\<forall>c \<in> set n. \<not> isspace c \<Longrightarrow> split_from cur (n @ rest) = split_from (cur @ n) rest"
  by (induction n arbitrary: cur) simp_all

lemma isspace_newline: "isspace (CHR 0x0A)"
  by (simp add: isspace_def)

lemma split_ls_files_output:
  assumes "\<forall>n \<in> set names. n \<noteq> [] \<and> (\<forall>c \<in> set n. \<not> isspace c)"
  shows "split (ls_files_output names) = names"
  using assms
proof (induction names)
  case Nil
  then show ?case by (simp add: split_def ls_files_output_def)
next
  case (Cons n names)
  then have n: "n \<noteq> []" "\<forall>c \<in> set n. \<not> isspace c"
    and IH: "split_from [] (ls_files_output names) = names"
    by (simp_all add: split_def)
  have "split (ls_files_output (n # names)) =
      split_from [] (n @ (CHR 0x0A # ls_files_output names))"
    by (simp add: split_def ls_files_output_def)
  also have "\<dots> = split_from n (CHR 0x0A # ls_files_output names)"
    using split_from_no_space [OF n(2), of "[]"] by simp
  also have "\<dots> = n # names"
    using n(1) IH by (simp add: isspace_newline)
  finally show ?case .
qed

section \<open>The remote URL\<close>

text \<open>
  Claim C2, as the specification states it: with the default host prefix
  \<^verbatim>\<open>git@github.com:\<close> and the repository \<^verbatim>\<open>org/repo\<close> the remote URL is
  \<^verbatim>\<open>git@github.com:org/repo\<close>. It is not: \<^verbatim>\<open>os.path.join\<close> puts a separator between the
  two, because the prefix does not end with one.
\<close>

theorem remote_default_counterexample:
  "remote (GitClient_init None ''org/repo'' default_git_host) \<noteq> ''git@github.com:org/repo''"
  by (simp add: remote_def GitClient_init_def getenv_def default_git_host_def path_join_def
      startswith_sep_def endswith_sep_def)

text \<open>
  Claim C2, amended: for every host prefix and repository path, the remote URL that both
  clone operations pass to git is the path join of the two: the repository path alone when
  it starts with a slash, the plain concatenation when the prefix is empty or ends with a
  slash, and otherwise the prefix, one slash and the repository path. The command line run
  by each operation carries it right before the temporary directory.
\<close>

theorem clone_remote_url:
  fixes c :: GitClient and s :: StudentAssignmentGitClient
  shows
    "snd (template_clone t tmp c w) =
       w @ [[''git'', ''clone'', ''--depth'', ''1'', ''--quiet'',
             (if repo c \<noteq> [] \<and> hd (repo c) = CHR ''/'' then repo c
              else if git_host c = [] \<or> last (git_host c) = CHR ''/''
                   then git_host c @ repo c
                   else git_host c @ ''/'' @ repo c),
             tmp]]
     \<and> snd (snd (clone_bare t cwd tmp s w)) =
       w @ [''git'' # git_dir_args (git_dir s) @ [''--work-tree'', cwd] @ configs s @
            [''clone'', ''--bare'', ''--quiet'',
             (if repo s \<noteq> [] \<and> hd (repo s) = CHR ''/'' then repo s
              else if git_host s = [] \<or> last (git_host s) = CHR ''/''
                   then git_host s @ repo s
                   else git_host s @ ''/'' @ repo s),
             tmp]]"
proof -
  have join: "path_join a b =
      (if b \<noteq> [] \<and> hd b = CHR ''/'' then b
       else if a = [] \<or> last a = CHR ''/'' then a @ b else a @ ''/'' @ b)" for a b
    by (cases b; cases a rule: rev_cases)
       (simp_all add: path_join_def startswith_sep_def endswith_sep_def)
  have "snd (template_clone t tmp c w) =
      w @ [[''git'', ''clone'', ''--depth'', ''1'', ''--quiet'', remote c, tmp]]"
    by (simp add: template_clone_def clone_def git_def check_output_cases
        split: proc.splits)
  moreover have "snd (snd (clone_bare t cwd tmp s w)) =
      w @ [git_m_argv cwd s [''clone'', ''--bare'', ''--quiet'', remote s, tmp]]"
    by (simp add: clone_bare_def clone_m_def git_m_check_output check_output_cases
        except_cpe_def split: proc.splits)
  ultimately show ?thesis
    by (simp add: remote_def join git_m_argv_def)
qed

theorem clone_remote_url_witness:
  "snd (template_clone tool_fail ''/tmp/b'' (GitClient_init None ''org/repo'' default_git_host) [])
     = [[''git'', ''clone'', ''--depth'', ''1'', ''--quiet'', ''git@github.com:/org/repo'',
         ''/tmp/b'']]
   \<and> snd (snd (clone_bare tool_fail cwd0 ''/tmp/b'' alice [])) =
     [[''git'', ''--work-tree'', ''/home/alice/pset1'',
       ''-c'', ''user.name=alice'', ''-c'', ''user.email=alice@users.noreply.github.com'',
       ''-c'', ''credential.helper=cache'',
       ''clone'', ''--bare'', ''--quiet'', ''git@github.com:/org/repo'', ''/tmp/b'']]"
  using clone_remote_url [where t = tool_fail and tmp = "''/tmp/b''" and w = "[]"
      and c = "GitClient_init None ''org/repo'' default_git_host" and cwd = cwd0 and s = alice]
  by (simp add: GitClient_init_def getenv_def default_git_host_def alice_def cwd0_def
      git_dir_args_def)

section \<open>The message of a failed bare clone\<close>

text \<open>
  Claim C3, as the specification states it: for identity \<^verbatim>\<open>alice\<close>, repository
  \<^verbatim>\<open>org/repo\<close> and the default host, a bare clone that exits with a non-zero status raises
  the message \<^verbatim>\<open>Failed to clone "git@github.com:org/repo".\<close> followed by the second line.
  The message carries the remote URL that was passed to git, which has a slash after the
  colon.
\<close>

theorem clone_bare_failure_message_counterexample:
  "fst (clone_bare tool_fail cwd0 ''/tmp/b'' alice []) \<noteq>
     Inl (RuntimeError (''Failed to clone \"git@github.com:org/repo\".'' @ [CHR 0x0A] @
       ''Please make sure you accepted the assignment invite on the problem set page.''))"
  by (simp add: clone_bare_eq tool_fail_def Let_def clone_bare_message_def remote_def alice_def
      path_join_def startswith_sep_def endswith_sep_def)

text \<open>
  Claim C3, amended: whenever the bare-clone invocation exits with a non-zero status,
  \<^verbatim>\<open>clone_bare\<close> raises a \<^verbatim>\<open>RuntimeError\<close> whose message is \<^verbatim>\<open>Failed to clone "<remote>".\<close>,
  a line feed, and \<^verbatim>\<open>Please make sure you accepted the assignment invite on the problem set
  page.\<close>, where the remote is the path join of the host prefix and the repository path
  (for \<^verbatim>\<open>alice\<close>, \<^verbatim>\<open>org/repo\<close> and the default host: \<^verbatim>\<open>git@github.com:/org/repo\<close>).
\<close>

theorem clone_bare_failure_message:
  assumes "t w (git_m_argv cwd self [''clone'', ''--bare'', ''--quiet'', remote self, d])
             = ExitNonZero"
  shows "fst (clone_bare t cwd d self w) =
     Inl (RuntimeError
       (''Failed to clone \"'' @ path_join (git_host self) (repo self) @ ''\".'' @ [CHR 0x0A] @
       ''Please make sure you accepted the assignment invite on the problem set page.''))"
  using assms by (simp add: clone_bare_eq Let_def clone_bare_message_def remote_def)

text \<open>The amended claim C3 at \<^verbatim>\<open>alice\<close>, \<^verbatim>\<open>org/repo\<close> and the default host.\<close>

theorem clone_bare_failure_message_witness:
  "tool_fail []
     (git_m_argv cwd0 alice [''clone'', ''--bare'', ''--quiet'', remote alice, ''/tmp/b''])
     = ExitNonZero
   \<and> fst (clone_bare tool_fail cwd0 ''/tmp/b'' alice []) =
     Inl (RuntimeError (''Failed to clone \"git@github.com:/org/repo\".'' @ [CHR 0x0A] @
       ''Please make sure you accepted the assignment invite on the problem set page.''))"
  using clone_bare_failure_message [of tool_fail "[]" cwd0 alice "''/tmp/b''"]
  by (simp add: tool_fail_def alice_def path_join_def startswith_sep_def endswith_sep_def)

section \<open>Which failures are turned into user-facing errors\<close>




section \<open>The configuration overrides\<close>

text \<open>
  Claim C1 (no override for a key that is set globally) at a configuration store that holds
  all three keys: every query succeeds and prints the value of its key, \<^verbatim>\<open>not_configured\<close>
  returns these bytes, the \<^verbatim>\<open>if\<close> takes them for true, and all three overrides are added.
  The constructor returns the same client as with an empty store.
\<close>

theorem set_keys_still_overridden:
  "StudentAssignmentGitClient_init
     (config_store [(''user.name'', ''Alice Liddell''), (''user.email'', ''alice@example.com''),
                    (''credential.helper'', ''store'')])
     None ''alice'' ''org/repo'' default_git_host [] =
   (Inr alice, [config_query ''user.name'', config_query ''user.email'',
                config_query ''credential.helper''])"
  by (simp add: init_eq default_configs_m_eq Let_def config_store_def config_query_def
      alice_def getenv_def default_git_host_def)

text \<open>
  Claim C6: a query that exits with a non-zero status, whatever its reason, makes
  \<^verbatim>\<open>not_configured\<close> return \<^verbatim>\<open>True\<close> for every key; \<^verbatim>\<open>_default_configs\<close> raises nothing but
  the \<^verbatim>\<open>FileNotFoundError\<close> of a missing executable, and the list it returns holds the
  override of each of the three keys whose query exited with a non-zero status.
\<close>

theorem failed_query_adds_override:
  assumes "default_configs_m t self w = (r, w')"
  shows "(t w0 (config_query key) = ExitNonZero \<longrightarrow>
            not_configured t key w0 = (Inr (PyBool True), w0 @ [config_query key]))
       \<and> (\<forall>e. r = Inl e \<longrightarrow> e = FileNotFoundError \<and> last_answer t w' = Some Missing)
       \<and> (\<forall>cs. r = Inr cs \<longrightarrow>
            (t w (config_query ''user.name'') = ExitNonZero \<longrightarrow>
               ''user.name='' @ username self \<in> set (overrides cs))
          \<and> (t (w @ [config_query ''user.name'']) (config_query ''user.email'') = ExitNonZero \<longrightarrow>
               ''user.email='' @ username self @ ''@users.noreply.github.com''
                 \<in> set (overrides cs))
          \<and> (t (w @ [config_query ''user.name'', config_query ''user.email''])
                (config_query ''credential.helper'') = ExitNonZero \<longrightarrow>
               ''credential.helper=cache'' \<in> set (overrides cs)))"
proof (intro conjI allI impI)
  assume "t w0 (config_query key) = ExitNonZero"
  then show "not_configured t key w0 = (Inr (PyBool True), w0 @ [config_query key])"
    by (simp add: not_configured_eq)
next
  fix e assume "r = Inl e"
  with assms show "e = FileNotFoundError"
    by (simp add: default_configs_m_eq Let_def split: if_splits)
  from \<open>r = Inl e\<close> assms show "last_answer t w' = Some Missing"
    by (auto simp add: default_configs_m_eq Let_def last_answer_def butlast_append
        split: if_splits)
next
  fix cs assume "r = Inr cs" "t w (config_query ''user.name'') = ExitNonZero"
  with assms show "''user.name='' @ username self \<in> set (overrides cs)"
    by (auto simp add: default_configs_m_eq Let_def split: if_splits)
next
  fix cs assume "r = Inr cs"
    "t (w @ [config_query ''user.name'']) (config_query ''user.email'') = ExitNonZero"
  with assms show
    "''user.email='' @ username self @ ''@users.noreply.github.com'' \<in> set (overrides cs)"
    by (auto simp add: default_configs_m_eq Let_def split: if_splits)
next
  fix cs assume "r = Inr cs"
    "t (w @ [config_query ''user.name'', config_query ''user.email''])
       (config_query ''credential.helper'') = ExitNonZero"
  with assms show "''credential.helper=cache'' \<in> set (overrides cs)"
    by (auto simp add: default_configs_m_eq Let_def split: if_splits)
qed

text \<open>Claim C6 with a git whose every query exits with a non-zero status.\<close>

theorem failed_query_adds_override_witness:
  "default_configs_m tool_fail alice [] =
     (Inr [''-c'', ''user.name=alice'', ''-c'', ''user.email=alice@users.noreply.github.com'',
           ''-c'', ''credential.helper=cache''],
      [config_query ''user.name'', config_query ''user.email'',
       config_query ''credential.helper''])
   \<and> tool_fail [] (config_query ''user.name'') = ExitNonZero
   \<and> not_configured tool_fail ''user.name'' [] = (Inr (PyBool True), [config_query ''user.name''])
   \<and> ''user.name=alice'' \<in> set (overrides
        [''-c'', ''user.name=alice'', ''-c'', ''user.email=alice@users.noreply.github.com'',
         ''-c'', ''credential.helper=cache''])"
  using failed_query_adds_override [where t = tool_fail and self = alice and w = "[]"
      and ?w0.0 = "[]" and key = "''user.name''"
      and r = "Inr [''-c'', ''user.name=alice'', ''-c'',
                    ''user.email=alice@users.noreply.github.com'',
                    ''-c'', ''credential.helper=cache'']"
      and w' = "[config_query ''user.name'', config_query ''user.email'',
                 config_query ''credential.helper'']"]
  by (simp add: default_configs_m_eq Let_def tool_fail_def alice_def)

text \<open>
  Claim C7, as the specification states it: the domain of the \<^verbatim>\<open>user.email\<close> override
  follows the host prefix in effect. With \<^verbatim>\<open>SUBMIT50_GIT_HOST\<close> set to \<^verbatim>\<open>git@gitlab.com:\<close>
  the override still names \<^verbatim>\<open>users.noreply.github.com\<close>.
\<close>

theorem email_domain_counterexample:
  "fst (StudentAssignmentGitClient_init tool_fail (Some ''git@gitlab.com:'') ''alice''
          ''org/repo'' default_git_host []) =
     Inr \<lparr>git_host = ''git@gitlab.com:'', repo = ''org/repo'', git_dir = None,
          username = ''alice'',
          configs = [''-c'', ''user.name=alice'',
                     ''-c'', ''user.email=alice@users.noreply.github.com'',
                     ''-c'', ''credential.helper=cache'']\<rparr>
   \<and> fst (StudentAssignmentGitClient_init tool_fail (Some ''git@gitlab.com:'') ''alice''
          ''org/repo'' default_git_host []) \<noteq>
     Inr \<lparr>git_host = ''git@gitlab.com:'', repo = ''org/repo'', git_dir = None,
          username = ''alice'',
          configs = [''-c'', ''user.name=alice'',
                     ''-c'', ''user.email=alice@users.noreply.gitlab.com'',
                     ''-c'', ''credential.helper=cache'']\<rparr>"
  by (simp add: init_eq default_configs_m_eq Let_def tool_fail_def getenv_def)

text \<open>
  Claim C7, amended: whatever host prefix is in effect at construction (the environment
  variable or the argument), when the query for \<^verbatim>\<open>user.email\<close> exits with a non-zero status
  the derived list sets \<^verbatim>\<open>user.email\<close> to the identity followed by
  \<^verbatim>\<open>@users.noreply.github.com\<close>, and no other value of \<^verbatim>\<open>user.email\<close> is ever derived.
\<close>

theorem email_override_fixed_domain:
  assumes "StudentAssignmentGitClient_init t env u r h w = (Inr c, w')"
  shows "git_host c = getenv env h
       \<and> (t (w @ [config_query ''user.name'']) (config_query ''user.email'') = ExitNonZero \<longrightarrow>
            ''user.email='' @ u @ ''@users.noreply.github.com'' \<in> set (overrides (configs c)))
       \<and> (\<forall>x \<in> set (overrides (configs c)).
            take 11 x = ''user.email='' \<longrightarrow>
            x = ''user.email='' @ u @ ''@users.noreply.github.com'')"
  using assms
  by (auto simp add: init_eq default_configs_m_eq Let_def split: if_splits)

text \<open>The amended claim C7 with the host prefix \<^verbatim>\<open>git@gitlab.com:\<close> from the environment.\<close>

theorem email_override_fixed_domain_witness:
  "StudentAssignmentGitClient_init tool_fail (Some ''git@gitlab.com:'') ''alice''
          ''org/repo'' default_git_host [] =
     (Inr (alice\<lparr>git_host := ''git@gitlab.com:''\<rparr>),
      [config_query ''user.name'', config_query ''user.email'',
       config_query ''credential.helper''])
   \<and> tool_fail [config_query ''user.name''] (config_query ''user.email'') = ExitNonZero
   \<and> ''user.email=alice@users.noreply.github.com''
        \<in> set (overrides (configs (alice\<lparr>git_host := ''git@gitlab.com:''\<rparr>)))"
  using email_override_fixed_domain [where t = tool_fail and env = "Some ''git@gitlab.com:''"
      and u = "''alice''" and r = "''org/repo''" and h = default_git_host and w = "[]"
      and c = "alice\<lparr>git_host := ''git@gitlab.com:''\<rparr>"
      and w' = "[config_query ''user.name'', config_query ''user.email'',
                 config_query ''credential.helper'']"]
  by (simp add: init_eq default_configs_m_eq Let_def tool_fail_def getenv_def alice_def)

section \<open>Staging\<close>

text \<open>
  Claim C5 (the staged files are a sorted permutation of the tracked paths) at one tracked
  path that contains a space: \<^verbatim>\<open>str.split()\<close> cuts the listing at every whitespace, so the
  path \<^verbatim>\<open>my file.txt\<close> comes back as the two entries \<^verbatim>\<open>file.txt\<close> and \<^verbatim>\<open>my\<close>.
\<close>

theorem add_splits_path_with_space:
  "add (tool_tracked [''my file.txt'']) cwd0 alice [] =
     (Inr [''file.txt'', ''my''],
      [git_m_argv cwd0 alice [''add'', ''--all''], git_m_argv cwd0 alice [''ls-files'']])"
  by (simp add: add_eq Let_def tool_tracked_def git_m_argv_def ls_files_output_def
      split_def isspace_def sorted_py_def)

text \<open>
  What does hold: the returned list is always sorted, and it is a permutation of the
  tracked paths when no path contains whitespace.
\<close>

lemma add_sorted:
  "fst (add t cwd self w) = Inr files \<Longrightarrow> sorted files"
  by (auto simp add: add_eq Let_def sorted_py_def split: proc.splits)

lemma add_sorted_permutation_without_whitespace:
  assumes "\<forall>n \<in> set names. n \<noteq> [] \<and> (\<forall>c \<in> set n. \<not> isspace c)"
    and "t w (git_m_argv cwd self [''add'', ''--all'']) = Exit0 out"
    and "t (w @ [git_m_argv cwd self [''add'', ''--all'']]) (git_m_argv cwd self [''ls-files''])
           = Exit0 (ls_files_output names)"
  shows "\<exists>files. fst (add t cwd self w) = Inr files \<and> sorted files \<and> mset files = mset names"
  using assms(2,3) split_ls_files_output [OF assms(1)]
  by (simp add: add_eq Let_def sorted_py_def)

section \<open>Commit and push\<close>



section \<open>The bound directory over the life of a client\<close>




section \<open>When the bare clone binds the directory\<close>

text \<open>
  Claim C10: if the clone invocation inside \<^verbatim>\<open>clone_bare\<close> fails (with a non-zero exit
  status or because the executable is missing), an exception is raised and the object is
  left as it was, so \<^verbatim>\<open>git_dir\<close> is unchanged; \<^verbatim>\<open>git_dir\<close> changes only when the invocation
  has returned successfully, and then to the temporary directory.
\<close>

theorem clone_bare_binds_after_success:
  assumes "clone_bare t cwd d self w = (r, self', w')"
    and "argv = git_m_argv cwd self [''clone'', ''--bare'', ''--quiet'', remote self, d]"
  shows "((\<forall>out. t w argv \<noteq> Exit0 out) \<longrightarrow> (\<exists>e. r = Inl e) \<and> self' = self)
       \<and> (git_dir self' \<noteq> git_dir self \<longrightarrow>
            (\<exists>out. t w argv = Exit0 out) \<and> r = Inr d \<and> git_dir self' = Some d)
       \<and> ((\<exists>e. r = Inl e) \<longrightarrow> git_dir self' = git_dir self)"
  using assms by (auto simp add: clone_bare_eq Let_def split: proc.splits)

text \<open>Claim C10 on a failed and on a successful clone from the unbound client.\<close>

theorem clone_bare_binds_after_success_witness:
  "clone_bare tool_fail cwd0 ''/tmp/b'' alice [] =
     (Inl (RuntimeError (clone_bare_message ''git@github.com:/org/repo'')), alice,
      [git_m_argv cwd0 alice
         [''clone'', ''--bare'', ''--quiet'', ''git@github.com:/org/repo'', ''/tmp/b'']])
   \<and> git_dir (fst (snd (clone_bare tool_fail cwd0 ''/tmp/b'' alice []))) = None
   \<and> clone_bare (tool_answers []) cwd0 ''/tmp/b'' alice [] =
     (Inr ''/tmp/b'', alice\<lparr>git_dir := Some ''/tmp/b''\<rparr>,
      [git_m_argv cwd0 alice
         [''clone'', ''--bare'', ''--quiet'', ''git@github.com:/org/repo'', ''/tmp/b'']])"
  using
    clone_bare_binds_after_success [OF _ refl, where t = tool_fail and cwd = cwd0
      and d = "''/tmp/b''" and self = alice and w = "[]" and self' = alice
      and r = "Inl (RuntimeError (clone_bare_message ''git@github.com:/org/repo''))"
      and w' = "[git_m_argv cwd0 alice
         [''clone'', ''--bare'', ''--quiet'', ''git@github.com:/org/repo'', ''/tmp/b'']]"]
    clone_bare_binds_after_success [OF _ refl, where t = "tool_answers []" and cwd = cwd0
      and d = "''/tmp/b''" and self = alice and w = "[]"
      and self' = "alice\<lparr>git_dir := Some ''/tmp/b''\<rparr>" and r = "Inr ''/tmp/b''"
      and w' = "[git_m_argv cwd0 alice
         [''clone'', ''--bare'', ''--quiet'', ''git@github.com:/org/repo'', ''/tmp/b'']]"]
  by (simp add: clone_bare_eq Let_def tool_fail_def tool_answers_def remote_def alice_def
      path_join_def startswith_sep_def endswith_sep_def)

end
